theory Spec2Isabelle
  imports Main
begin

section \<open>AtomLog: a level-gated logger writing to two streams\<close>

text \<open>
  The development embeds \<^verbatim>\<open>src/Atom_Log/AtomLog.cpp\<close>: the enumeration
  \<^verbatim>\<open>LogLevel\<close>, the class \<^verbatim>\<open>Logger\<close> with its three members, the member
  functions \<^verbatim>\<open>set_log_level\<close>, \<^verbatim>\<open>log\<close>, \<^verbatim>\<open>level_to_string\<close>,
  \<^verbatim>\<open>level_to_color\<close>, and the macros \<^verbatim>\<open>LOG_INFO\<close> ... \<^verbatim>\<open>LOG_IF\<close>.
  The singleton, the two output streams and the wall clock are made explicit: a call
  takes the process state (the one \<^verbatim>\<open>Logger\<close>, the bytes written so far to
  \<^verbatim>\<open>std::cout\<close> and to \<^verbatim>\<open>std::cerr\<close>) and the clock it reads, and returns the
  process state after the call. The model is sequential: one caller at a time.
\<close>

subsection \<open>LogLevel\<close>

text \<open>
  \<^verbatim>\<open>enum class LogLevel { DEBUG = 0, INFO = 1, WARN = 2, ERROR = 3 }\<close> has the
  underlying type \<^verbatim>\<open>int\<close>, and every value of that type is a value of the enumeration
  (\<^verbatim>\<open>static_cast<LogLevel>(7)\<close>); \<^verbatim>\<open><\<close> and \<^verbatim>\<open>>=\<close> compare the underlying
  values. A level is therefore an integer and the four enumerators are constants. No
  arithmetic is done on levels, so the width of \<^verbatim>\<open>int\<close> plays no role.
\<close>

type_synonym LogLevel = int

definition DEBUG :: LogLevel where "DEBUG = 0"
definition INFO :: LogLevel where "INFO = 1"
definition WARN :: LogLevel where "WARN = 2"
definition ERROR :: LogLevel where "ERROR = 3"

lemmas LogLevel_defs = DEBUG_def INFO_def WARN_def ERROR_def

subsection \<open>Characters and escape sequences\<close>

definition ESC :: char where "ESC = CHR 0x1B"

definition newline :: char where "newline = CHR 0x0A"

text \<open>The literal \<^verbatim>\<open>"\033[0m"\<close> of lines 84, 106 and 121.\<close>

definition reset_code :: string where "reset_code = ESC # ''[0m''"

subsection \<open>The Logger object\<close>

text \<open>
  The members \<^verbatim>\<open>log_level_\<close>, \<^verbatim>\<open>level_strings_\<close> and \<^verbatim>\<open>colors_\<close>
  (lines 127-133), named without the trailing underscore. The two
  \<^verbatim>\<open>std::unordered_map\<close> members are maps; the atomic member is read and written by
  one caller at a time, so it is a plain field.
\<close>

record Logger =
  log_level :: LogLevel
  level_strings :: "LogLevel \<rightharpoonup> string"
  colors :: "LogLevel \<rightharpoonup> string"

text \<open>
  The private constructor (lines 98-110) together with the default member initialiser
  \<^verbatim>\<open>log_level_{ LogLevel::INFO }\<close> (line 127). Each \<^verbatim>\<open>operator[]\<close> assignment is one
  map update, in the order of the source.
\<close>

definition Logger_ctor :: Logger where
  "Logger_ctor =
     \<lparr> log_level = INFO,
       level_strings =
         Map.empty(INFO \<mapsto> ''INFO'', WARN \<mapsto> ''WARN'', ERROR \<mapsto> ''ERROR'', DEBUG \<mapsto> ''DEBUG''),
       colors =
         Map.empty(INFO \<mapsto> ESC # ''[0m'', DEBUG \<mapsto> ESC # ''[36m'',
                   WARN \<mapsto> ESC # ''[33m'', ERROR \<mapsto> ESC # ''[31m'') \<rparr>"

text \<open>Lines 113-117: \<^verbatim>\<open>find\<close> does not insert; a missing key gives the static default.\<close>

definition level_to_string :: "Logger \<Rightarrow> LogLevel \<Rightarrow> string" where
  "level_to_string lg level =
     (case level_strings lg level of Some s \<Rightarrow> s | None \<Rightarrow> ''UNKNOWN'')"

text \<open>Lines 120-124.\<close>

definition level_to_color :: "Logger \<Rightarrow> LogLevel \<Rightarrow> string" where
  "level_to_color lg level =
     (case colors lg level of Some s \<Rightarrow> s | None \<Rightarrow> ESC # ''[0m'')"

subsection \<open>The process state and the clock\<close>

record process =
  logger :: Logger
  cout :: string
  cerr :: string

text \<open>
  \<^verbatim>\<open>Logger::instance()\<close> (lines 20-23) constructs the singleton on first use; the
  process starts with that object and with nothing written yet.
\<close>

definition startup :: process where
  "startup = \<lparr> logger = Logger_ctor, cout = [], cerr = [] \<rparr>"

text \<open>The fields of \<^verbatim>\<open>std::tm\<close> that the format string of line 66 reads.\<close>

record tm =
  tm_sec :: int
  tm_min :: int
  tm_hour :: int
  tm_mday :: int
  tm_mon :: int
  tm_year :: int

text \<open>
  What a call reads from its environment: \<^verbatim>\<open>std::chrono::system_clock::now()\<close> as a
  signed count of nanoseconds since the epoch (the representation of libstdc++, the
  library of the \<^verbatim>\<open>localtime_r\<close> branch), and the C library's \<^verbatim>\<open>localtime_r\<close>
  with the time zone it applies, as a function from \<^verbatim>\<open>time_t\<close> to \<^verbatim>\<open>std::tm\<close>.
\<close>

record clock =
  system_clock_now :: int
  localtime_r :: "int \<Rightarrow> tm"

subsection \<open>Integer arithmetic and stream formatting of the C++ library\<close>

text \<open>
  Division and remainder of C++ integers truncate toward zero; the remainder has the sign
  of the dividend. \<^verbatim>\<open>duration_cast\<close> to a coarser period and \<^verbatim>\<open>%\<close> on durations
  are these operations on the tick counts.
\<close>

definition cxx_div :: "int \<Rightarrow> int \<Rightarrow> int" where
  "cxx_div a b = sgn a * sgn b * (\<bar>a\<bar> div \<bar>b\<bar>)"

definition cxx_rem :: "int \<Rightarrow> int \<Rightarrow> int" where
  "cxx_rem a b = sgn a * (\<bar>a\<bar> mod \<bar>b\<bar>)"

definition duration_cast_milliseconds :: "int \<Rightarrow> int" where
  "duration_cast_milliseconds ns = cxx_div ns 1000000"

definition to_time_t :: "int \<Rightarrow> int" where
  "to_time_t ns = cxx_div ns 1000000000"

definition digit_char :: "nat \<Rightarrow> char" where
  "digit_char d =
     (if d = 0 then CHR ''0'' else if d = 1 then CHR ''1'' else if d = 2 then CHR ''2''
      else if d = 3 then CHR ''3'' else if d = 4 then CHR ''4'' else if d = 5 then CHR ''5''
      else if d = 6 then CHR ''6'' else if d = 7 then CHR ''7'' else if d = 8 then CHR ''8''
      else CHR ''9'')"

fun digits :: "nat \<Rightarrow> string" where
  "digits n = (if n < 10 then [digit_char n] else digits (n div 10) @ [digit_char (n mod 10)])"

declare digits.simps [simp del]

text \<open>\<^verbatim>\<open>operator<<\<close> for an \<^verbatim>\<open>int\<close> or \<^verbatim>\<open>long\<close> with width 0: decimal, a minus sign if negative.\<close>

definition show_int :: "int \<Rightarrow> string" where
  "show_int i = (if i < 0 then CHR ''-'' # digits (nat (- i)) else digits (nat i))"

text \<open>
  A field of width \<open>w\<close> with fill character \<open>c\<close>: the stream's adjustment is the default
  one (right), so the fill goes in front of the whole text, sign included.
\<close>

definition setw_setfill :: "nat \<Rightarrow> char \<Rightarrow> string \<Rightarrow> string" where
  "setw_setfill w c s = replicate (w - length s) c @ s"

text \<open>
  \<^verbatim>\<open>std::put_time(&bt, "%Y-%m-%d %H:%M:%S")\<close>: \<^verbatim>\<open>%Y\<close> is the year
  \<^verbatim>\<open>tm_year + 1900\<close> as a decimal number, \<^verbatim>\<open>%m\<close> is \<^verbatim>\<open>tm_mon + 1\<close>, and
  \<^verbatim>\<open>%m %d %H %M %S\<close> are decimal numbers of two digits, with a leading zero below ten.
\<close>

definition two_digits :: "int \<Rightarrow> string" where
  "two_digits n = setw_setfill 2 CHR ''0'' (show_int n)"

definition put_time :: "tm \<Rightarrow> string" where
  "put_time bt =
     show_int (tm_year bt + 1900) @ ''-'' @ two_digits (tm_mon bt + 1) @ ''-'' @
     two_digits (tm_mday bt) @ '' '' @ two_digits (tm_hour bt) @ '':'' @
     two_digits (tm_min bt) @ '':'' @ two_digits (tm_sec bt)"

subsection \<open>Logger::set_log_level and Logger::log\<close>

text \<open>Lines 26-28.\<close>

definition set_log_level :: "LogLevel \<Rightarrow> process \<Rightarrow> process" where
  "set_log_level level s = s\<lparr> logger := (logger s)\<lparr> log_level := level \<rparr> \<rparr>"

text \<open>
  Lines 45-67: the clock is read, the milliseconds within the second and the
  \<^verbatim>\<open>time_t\<close> are taken from it, the \<^verbatim>\<open>time_t\<close> is broken down in local time, and
  the stream receives the date and time, a dot, and the milliseconds in a field of width
  3 filled with \<^verbatim>\<open>'0'\<close>.
\<close>

definition format_timestamp :: "clock \<Rightarrow> string" where
  "format_timestamp clk =
     (let now = system_clock_now clk;
          ms = cxx_rem (duration_cast_milliseconds now) 1000;
          timer = to_time_t now;
          bt = localtime_r clk timer
      in put_time bt @ ''.'' @ setw_setfill 3 CHR ''0'' (show_int ms))"

text \<open>
  Lines 76-78. The parameter \<^verbatim>\<open>const char* file\<close> is \<open>None\<close> for the null pointer;
  \<^verbatim>\<open>int line\<close> is printed in decimal.
\<close>

definition location :: "LogLevel \<Rightarrow> string option \<Rightarrow> int \<Rightarrow> string" where
  "location level file line =
     (case file of
        Some f \<Rightarrow> (if WARN \<le> level \<and> 0 < line
                   then '' [at '' @ f @ '':'' @ show_int line @ '']'' else [])
      | None \<Rightarrow> [])"

text \<open>Lines 63-78: the contents of the \<^verbatim>\<open>std::ostringstream\<close> when it is written out.\<close>

definition stream_str ::
  "Logger \<Rightarrow> LogLevel \<Rightarrow> string \<Rightarrow> string option \<Rightarrow> int \<Rightarrow> clock \<Rightarrow> string" where
  "stream_str lg level message file line clk =
     format_timestamp clk @ '' ['' @ level_to_string lg level @ ''] '' @ message @
     location level file line"

text \<open>
  Lines 37-90. \<^verbatim>\<open>std::endl\<close> writes one newline character (and flushes, which the
  model does not show). The source has no other statement that writes.
\<close>

definition log ::
  "LogLevel \<Rightarrow> string \<Rightarrow> string option \<Rightarrow> int \<Rightarrow> clock \<Rightarrow> process \<Rightarrow> process" where
  "log level message file line clk s =
     (if level < log_level (logger s) then s
      else
        let str = stream_str (logger s) level message file line clk
        in if WARN \<le> level
           then s\<lparr> cerr := cerr s @ level_to_color (logger s) level @ str @ ESC # ''[0m'' @ [newline] \<rparr>
           else s\<lparr> cout := cout s @ str @ [newline] \<rparr>)"

subsection \<open>The macros\<close>

text \<open>
  Lines 139-160. \<^verbatim>\<open>__FILE__\<close> and \<^verbatim>\<open>__LINE__\<close> are the file name and the line
  number of the place where the macro is expanded; they are parameters here.
  \<^verbatim>\<open>Logger::instance()\<close> is the logger of the process state.
\<close>

definition LOG_INFO :: "string \<Rightarrow> clock \<Rightarrow> process \<Rightarrow> process" where
  "LOG_INFO msg clk s = log INFO msg None 0 clk s"

definition LOG_DEBUG :: "string \<Rightarrow> clock \<Rightarrow> process \<Rightarrow> process" where
  "LOG_DEBUG msg clk s = log DEBUG msg None 0 clk s"

definition LOG_WARN :: "string \<Rightarrow> string \<Rightarrow> int \<Rightarrow> clock \<Rightarrow> process \<Rightarrow> process" where
  "LOG_WARN msg FILE LINE clk s = log WARN msg (Some FILE) LINE clk s"

definition LOG_ERROR :: "string \<Rightarrow> string \<Rightarrow> int \<Rightarrow> clock \<Rightarrow> process \<Rightarrow> process" where
  "LOG_ERROR msg FILE LINE clk s = log ERROR msg (Some FILE) LINE clk s"

definition LOG_CUSTOM :: "LogLevel \<Rightarrow> string \<Rightarrow> clock \<Rightarrow> process \<Rightarrow> process" where
  "LOG_CUSTOM level msg clk s = log level msg None 0 clk s"

definition LOG_CRITICAL :: "string \<Rightarrow> string \<Rightarrow> int \<Rightarrow> clock \<Rightarrow> process \<Rightarrow> process" where
  "LOG_CRITICAL msg FILE LINE clk s =
     log ERROR ((ESC # ''[1;31mCRITICAL:'' @ ESC # ''[0m '') @ msg) (Some FILE) LINE clk s"

definition LOG_IF :: "bool \<Rightarrow> LogLevel \<Rightarrow> string \<Rightarrow> clock \<Rightarrow> process \<Rightarrow> process" where
  "LOG_IF condition level msg clk s = (if condition then log level msg None 0 clk s else s)"

subsection \<open>Notions used to state the properties\<close>

text \<open>
  A logger whose two maps are the ones the constructor built. \<^verbatim>\<open>set_log_level\<close>
  and \<^verbatim>\<open>log\<close> keep this (lemmas \<open>constructed_set_log_level\<close>, \<open>constructed_log\<close>),
  and the maps are private, so it holds of the singleton throughout (lemma
  \<open>reachable_constructed\<close>).
\<close>

definition constructed :: "Logger \<Rightarrow> bool" where
  "constructed lg \<longleftrightarrow>
     level_strings lg = level_strings Logger_ctor \<and> colors lg = colors Logger_ctor"

text \<open>
  The states a process can be in: it starts with \<open>startup\<close>, and the two public member
  functions are the only steps that touch the logger and the streams.
\<close>

inductive reachable :: "process \<Rightarrow> bool" where
  reachable_startup: "reachable startup"
| reachable_set_log_level: "reachable s \<Longrightarrow> reachable (set_log_level level s)"
| reachable_log: "reachable s \<Longrightarrow> reachable (log level message file line clk s)"

text \<open>The bytes a stream received between two states of the process.\<close>

definition appended :: "string \<Rightarrow> string \<Rightarrow> string" where
  "appended before after = drop (length before) after"

text \<open>Everything a step of the process wrote, on either stream.\<close>

definition output_of :: "process \<Rightarrow> process \<Rightarrow> string" where
  "output_of s s' = appended (cout s) (cout s') @ appended (cerr s) (cerr s')"

text \<open>A text that is one line: it ends in a newline and has no other.\<close>

definition one_line :: "string \<Rightarrow> bool" where
  "one_line w \<longleftrightarrow> w \<noteq> [] \<and> last w = newline \<and> newline \<notin> set (butlast w)"

text \<open>
  The pattern \<^verbatim>\<open>YYYY-MM-DD HH:MM:SS.mmm\<close>: a letter of the pattern stands for one
  decimal digit, every other character for itself.
\<close>

definition is_digit :: "char \<Rightarrow> bool" where
  "is_digit c \<longleftrightarrow> c \<in> set ''0123456789''"

fun matches_pattern :: "string \<Rightarrow> string \<Rightarrow> bool" where
  "matches_pattern [] [] = True"
| "matches_pattern (p # ps) (c # cs) =
     ((if p \<in> set ''YMDHSm'' then is_digit c else c = p) \<and> matches_pattern ps cs)"
| "matches_pattern _ _ = False"

definition timestamp_format :: "string \<Rightarrow> bool" where
  "timestamp_format ts = matches_pattern ''YYYY-MM-DD HH:MM:SS.mmm'' ts"

text \<open>
  A broken-down time as \<^verbatim>\<open>localtime_r\<close> delivers it for a year of four digits: the
  ranges of the C standard for the fields (\<^verbatim>\<open>tm_sec\<close> up to 60 for a leap second), and
  \<^verbatim>\<open>tm_year\<close>, which counts from 1900, between the years 1000 and 9999.
\<close>

definition calendar_tm :: "tm \<Rightarrow> bool" where
  "calendar_tm bt \<longleftrightarrow>
     0 \<le> tm_sec bt \<and> tm_sec bt \<le> 60 \<and> 0 \<le> tm_min bt \<and> tm_min bt \<le> 59 \<and>
     0 \<le> tm_hour bt \<and> tm_hour bt \<le> 23 \<and> 1 \<le> tm_mday bt \<and> tm_mday bt \<le> 31 \<and>
     0 \<le> tm_mon bt \<and> tm_mon bt \<le> 11 \<and>
     1000 \<le> tm_year bt + 1900 \<and> tm_year bt + 1900 \<le> 9999"

text \<open>A run of calls to \<^verbatim>\<open>log\<close>, each with its own arguments and its own clock reading.\<close>

type_synonym log_call = "LogLevel \<times> string \<times> string option \<times> int \<times> clock"

fun log_calls :: "log_call list \<Rightarrow> process \<Rightarrow> process" where
  "log_calls [] s = s"
| "log_calls ((level, message, file, line, clk) # cs) s =
     log_calls cs (log level message file line clk s)"

text \<open>
  Concrete environments for the examples: a C library that answers every \<^verbatim>\<open>time_t\<close>
  with the same broken-down time.
\<close>

definition fixed_localtime :: "tm \<Rightarrow> int \<Rightarrow> tm" where
  "fixed_localtime bt timer = bt"

text \<open>
  A clock reading of 1700000000.123456789 seconds after the epoch, and the broken-down
  time of that second in UTC: 14 November 2023, 22:13:20.
\<close>

definition clock_2023 :: clock where
  "clock_2023 =
     \<lparr> system_clock_now = 1700000000123456789,
       localtime_r = fixed_localtime
         \<lparr> tm_sec = 20, tm_min = 13, tm_hour = 22, tm_mday = 14, tm_mon = 10, tm_year = 123 \<rparr> \<rparr>"

section \<open>Basic facts\<close>

subsection \<open>The three outcomes of a call to log\<close>

lemma log_suppressed:
  "level < log_level (logger s) \<Longrightarrow> log level message file line clk s = s"
  by (simp add: log_def)

lemma log_to_cout:
  "log_level (logger s) \<le> level \<Longrightarrow> level < WARN \<Longrightarrow>
   log level message file line clk s =
     s\<lparr> cout := cout s @ stream_str (logger s) level message file line clk @ [newline] \<rparr>"
  by (simp add: log_def Let_def)

lemma log_to_cerr:
  "log_level (logger s) \<le> level \<Longrightarrow> WARN \<le> level \<Longrightarrow>
   log level message file line clk s =
     s\<lparr> cerr := cerr s @ level_to_color (logger s) level @
                 stream_str (logger s) level message file line clk @ reset_code @ [newline] \<rparr>"
  by (simp add: log_def Let_def reset_code_def)

lemma logger_log: "logger (log level message file line clk s) = logger s"
  by (simp add: log_def Let_def)

subsection \<open>Decimal digits and the timestamp\<close>

lemma is_digit_digit_char: "is_digit (digit_char d)"
  by (simp add: is_digit_def digit_char_def)

lemma digits1: "n < 10 \<Longrightarrow> digits n = [digit_char n]"
  by (subst digits.simps) simp

lemma digits2: "10 \<le> n \<Longrightarrow> n < 100 \<Longrightarrow> digits n = [digit_char (n div 10), digit_char (n mod 10)]"
  by (subst digits.simps) (simp add: digits1)

lemma digits3: "100 \<le> n \<Longrightarrow> n < 1000 \<Longrightarrow>
  digits n = [digit_char (n div 100), digit_char (n div 10 mod 10), digit_char (n mod 10)]"
  by (subst digits.simps) (simp add: digits2 div_mult2_eq [symmetric])

lemma digits4: "1000 \<le> n \<Longrightarrow> n < 10000 \<Longrightarrow>
  digits n = [digit_char (n div 1000), digit_char (n div 100 mod 10),
              digit_char (n div 10 mod 10), digit_char (n mod 10)]"
  by (subst digits.simps) (simp add: digits3 div_mult2_eq [symmetric])

lemma digit_char_0: "digit_char 0 = CHR ''0''"
  by (simp add: digit_char_def)

lemma two_digits_eq:
  assumes "0 \<le> n" "n \<le> 99"
  shows "two_digits n = [digit_char (nat n div 10), digit_char (nat n mod 10)]"
proof (cases "n < 10")
  case True
  with assms have "digits (nat n) = [digit_char (nat n)]" by (simp add: digits1)
  moreover from True assms have "nat n div 10 = 0" "nat n mod 10 = nat n" by simp_all
  ultimately show ?thesis using assms
    by (simp add: two_digits_def setw_setfill_def show_int_def digit_char_0)
next
  case False
  with assms have "digits (nat n) = [digit_char (nat n div 10), digit_char (nat n mod 10)]"
    by (simp add: digits2)
  then show ?thesis using assms
    by (simp add: two_digits_def setw_setfill_def show_int_def)
qed

lemma three_digits_eq:
  assumes "0 \<le> n" "n \<le> 999"
  shows "setw_setfill 3 CHR ''0'' (show_int n) =
         [digit_char (nat n div 100), digit_char (nat n div 10 mod 10), digit_char (nat n mod 10)]"
proof -
  consider "n < 10" | "10 \<le> n" "n < 100" | "100 \<le> n" by linarith
  then show ?thesis
  proof cases
    case 1
    with assms have "digits (nat n) = [digit_char (nat n)]" by (simp add: digits1)
    moreover from 1 assms have "nat n div 100 = 0" "nat n div 10 = 0" "nat n mod 10 = nat n"
      by simp_all
    ultimately show ?thesis using assms
      by (simp add: setw_setfill_def show_int_def digit_char_0 numeral_2_eq_2)
  next
    case 2
    with assms have "digits (nat n) = [digit_char (nat n div 10), digit_char (nat n mod 10)]"
      by (simp add: digits2)
    moreover from 2 assms have "nat n div 100 = 0" "nat n div 10 mod 10 = nat n div 10"
      by simp_all
    ultimately show ?thesis using assms
      by (simp add: setw_setfill_def show_int_def digit_char_0 numeral_2_eq_2)
  next
    case 3
    with assms have "digits (nat n) =
        [digit_char (nat n div 100), digit_char (nat n div 10 mod 10), digit_char (nat n mod 10)]"
      by (simp add: digits3)
    then show ?thesis using assms
      by (simp add: setw_setfill_def show_int_def)
  qed
qed

lemma year_digits_eq:
  assumes "1000 \<le> y" "y \<le> 9999"
  shows "show_int y = [digit_char (nat y div 1000), digit_char (nat y div 100 mod 10),
                       digit_char (nat y div 10 mod 10), digit_char (nat y mod 10)]"
  using assms by (simp add: show_int_def digits4)

lemma milliseconds_from_epoch:
  assumes "0 \<le> now"
  shows "cxx_rem (duration_cast_milliseconds now) 1000 = now div 1000000 mod 1000"
proof -
  have "0 \<le> now div 1000000" using assms by simp
  then show ?thesis using assms
    by (simp add: cxx_rem_def duration_cast_milliseconds_def cxx_div_def sgn_if)
qed

lemma format_timestamp_digits:
  assumes "0 \<le> system_clock_now clk"
    and "calendar_tm (localtime_r clk (to_time_t (system_clock_now clk)))"
  shows "timestamp_format (format_timestamp clk)"
proof -
  define bt where "bt = localtime_r clk (to_time_t (system_clock_now clk))"
  define ms where "ms = system_clock_now clk div 1000000 mod 1000"
  have ms: "0 \<le> ms" "ms \<le> 999" by (simp_all add: ms_def)
  have cal: "calendar_tm bt" using assms(2) by (simp add: bt_def)
  have ft: "format_timestamp clk = put_time bt @ ''.'' @ setw_setfill 3 CHR ''0'' (show_int ms)"
    using assms(1) by (simp add: format_timestamp_def Let_def bt_def ms_def milliseconds_from_epoch)
  have y: "show_int (tm_year bt + 1900) =
       [digit_char (nat (tm_year bt + 1900) div 1000), digit_char (nat (tm_year bt + 1900) div 100 mod 10),
        digit_char (nat (tm_year bt + 1900) div 10 mod 10), digit_char (nat (tm_year bt + 1900) mod 10)]"
    using cal by (intro year_digits_eq) (simp_all add: calendar_tm_def)
  have f: "two_digits (tm_mon bt + 1) = [digit_char (nat (tm_mon bt + 1) div 10), digit_char (nat (tm_mon bt + 1) mod 10)]"
      "two_digits (tm_mday bt) = [digit_char (nat (tm_mday bt) div 10), digit_char (nat (tm_mday bt) mod 10)]"
      "two_digits (tm_hour bt) = [digit_char (nat (tm_hour bt) div 10), digit_char (nat (tm_hour bt) mod 10)]"
      "two_digits (tm_min bt) = [digit_char (nat (tm_min bt) div 10), digit_char (nat (tm_min bt) mod 10)]"
      "two_digits (tm_sec bt) = [digit_char (nat (tm_sec bt) div 10), digit_char (nat (tm_sec bt) mod 10)]"
    using cal by (simp_all add: two_digits_eq calendar_tm_def)
  show ?thesis
    unfolding ft put_time_def y f three_digits_eq [OF ms] timestamp_format_def
    by (simp add: is_digit_digit_char)
qed

subsection \<open>The constructed maps and the characters of each part\<close>

lemma constructed_Logger_ctor: "constructed Logger_ctor"
  by (simp add: constructed_def)

lemma constructed_set_log_level:
  "constructed (logger (set_log_level level s)) = constructed (logger s)"
  by (simp add: constructed_def set_log_level_def)

lemma constructed_log:
  "constructed (logger (log level message file line clk s)) = constructed (logger s)"
  by (simp add: logger_log)

lemma reachable_constructed: "reachable s \<Longrightarrow> constructed (logger s)"
  by (induction rule: reachable.induct)
    (simp_all add: startup_def constructed_Logger_ctor constructed_set_log_level constructed_log)

lemma level_to_string_constructed:
  "constructed lg \<Longrightarrow>
   level_to_string lg level =
     (if level = DEBUG then ''DEBUG'' else if level = INFO then ''INFO''
      else if level = WARN then ''WARN'' else if level = ERROR then ''ERROR''
      else ''UNKNOWN'')"
  by (simp add: constructed_def level_to_string_def Logger_ctor_def LogLevel_defs)

lemma level_to_color_constructed:
  "constructed lg \<Longrightarrow>
   level_to_color lg level =
     (if level = DEBUG then ESC # ''[36m'' else if level = INFO then ESC # ''[0m''
      else if level = WARN then ESC # ''[33m'' else if level = ERROR then ESC # ''[31m''
      else ESC # ''[0m'')"
  by (simp add: constructed_def level_to_color_def Logger_ctor_def LogLevel_defs)

lemma digits_is_digit: "c \<in> set (digits n) \<Longrightarrow> is_digit c"
proof (induction n rule: digits.induct)
  case (1 n)
  show ?case
  proof (cases "n < 10")
    case True
    with 1(2) show ?thesis by (simp add: digits1 is_digit_digit_char)
  next
    case False
    with 1(2) have "c \<in> set (digits (n div 10)) \<or> c = digit_char (n mod 10)"
      by (subst (asm) digits.simps) auto
    with 1(1) False show ?thesis by (auto simp: is_digit_digit_char)
  qed
qed

lemma show_int_chars: "c \<in> set (show_int i) \<Longrightarrow> is_digit c \<or> c = CHR ''-''"
  by (auto simp: show_int_def dest: digits_is_digit split: if_splits)

lemma setw_setfill_chars: "c \<in> set (setw_setfill w f s) \<Longrightarrow> c = f \<or> c \<in> set s"
  by (auto simp: setw_setfill_def)

lemma is_digit_zero: "is_digit CHR ''0''"
  by (simp add: is_digit_def)

lemma two_digits_chars: "c \<in> set (two_digits n) \<Longrightarrow> is_digit c \<or> c = CHR ''-''"
  unfolding two_digits_def
  by (auto dest!: setw_setfill_chars show_int_chars simp: is_digit_zero)

lemma put_time_chars:
  "c \<in> set (put_time bt) \<Longrightarrow> is_digit c \<or> c = CHR ''-'' \<or> c = CHR '':'' \<or> c = CHR '' ''"
  unfolding put_time_def
  by (auto dest: two_digits_chars show_int_chars)

lemma format_timestamp_chars:
  assumes "c \<in> set (format_timestamp clk)"
  shows "is_digit c \<or> c = CHR ''-'' \<or> c = CHR '':'' \<or> c = CHR '' '' \<or> c = CHR ''.''"
proof -
  define bt where "bt = localtime_r clk (to_time_t (system_clock_now clk))"
  define ms where "ms = cxx_rem (duration_cast_milliseconds (system_clock_now clk)) 1000"
  have "format_timestamp clk = put_time bt @ ''.'' @ setw_setfill 3 CHR ''0'' (show_int ms)"
    by (simp add: format_timestamp_def Let_def bt_def ms_def)
  with assms consider "c \<in> set (put_time bt)" | "c = CHR ''.''"
    | "c \<in> set (setw_setfill 3 CHR ''0'' (show_int ms))" by auto
  then show ?thesis
  proof cases
    case 1
    then show ?thesis using put_time_chars by blast
  next
    case 2
    then show ?thesis by simp
  next
    case 3
    then have "c = CHR ''0'' \<or> c \<in> set (show_int ms)" by (rule setw_setfill_chars)
    then show ?thesis using show_int_chars is_digit_zero by blast
  qed
qed

lemma format_timestamp_plain:
  "newline \<notin> set (format_timestamp clk)" "ESC \<notin> set (format_timestamp clk)"
proof -
  show "newline \<notin> set (format_timestamp clk)"
  proof
    assume "newline \<in> set (format_timestamp clk)"
    from format_timestamp_chars [OF this] show False
      by (simp add: newline_def is_digit_def)
  qed
  show "ESC \<notin> set (format_timestamp clk)"
  proof
    assume "ESC \<in> set (format_timestamp clk)"
    from format_timestamp_chars [OF this] show False
      by (simp add: ESC_def is_digit_def)
  qed
qed

lemma level_to_string_plain:
  "constructed lg \<Longrightarrow> newline \<notin> set (level_to_string lg level)"
  "constructed lg \<Longrightarrow> ESC \<notin> set (level_to_string lg level)"
  by (simp_all add: level_to_string_constructed newline_def ESC_def)

lemma level_to_color_escape:
  "constructed lg \<Longrightarrow> newline \<notin> set (level_to_color lg level)"
  "constructed lg \<Longrightarrow> level_to_color lg level \<noteq> []"
  "constructed lg \<Longrightarrow> hd (level_to_color lg level) = ESC"
  by (simp_all add: level_to_color_constructed newline_def ESC_def)

lemma output_of_cout: "output_of s (s\<lparr> cout := cout s @ w \<rparr>) = w"
  by (simp add: output_of_def appended_def)

lemma output_of_cerr: "output_of s (s\<lparr> cerr := cerr s @ w \<rparr>) = w"
  by (simp add: output_of_def appended_def)

lemma output_of_same: "output_of s s = []"
  by (simp add: output_of_def appended_def)

subsection \<open>Evaluation on concrete inputs\<close>

lemma digits_numeral [simp]:
  "digits (numeral k) =
     (if (numeral k :: nat) < 10 then [digit_char (numeral k)]
      else digits (numeral k div 10) @ [digit_char (numeral k mod 10)])"
  by (rule digits.simps)

lemma digits_0 [simp]: "digits 0 = ''0''"
  by (simp add: digits1 digit_char_0)

lemma digits_1 [simp]: "digits 1 = ''1''" "digits (Suc 0) = ''1''"
  by (simp_all add: digits1 digit_char_def)

lemmas eval_defs =
  format_timestamp_def Let_def cxx_rem_def cxx_div_def duration_cast_milliseconds_def
  to_time_t_def put_time_def two_digits_def setw_setfill_def show_int_def
  digit_char_def fixed_localtime_def

lemma format_timestamp_clock_2023:
  "format_timestamp clock_2023 = ''2023-11-14 22:13:20.123''"
  by (simp add: clock_2023_def eval_defs)

subsection \<open>The location suffix\<close>

lemma location_below_WARN: "level < WARN \<Longrightarrow> location level file line = []"
  by (simp add: location_def split: option.splits)

lemma location_Some:
  "WARN \<le> level \<Longrightarrow> 0 < line \<Longrightarrow>
   location level (Some f) line = '' [at '' @ f @ '':'' @ show_int line @ '']''"
  by (simp add: location_def)

lemma location_absent:
  "file = None \<or> line \<le> 0 \<Longrightarrow> location level file line = []"
  by (auto simp: location_def split: option.splits)

lemma location_nonempty_iff:
  "location level file line \<noteq> [] \<longleftrightarrow> WARN \<le> level \<and> file \<noteq> None \<and> 0 < line"
  by (auto simp: location_def split: option.splits)

lemma location_plain:
  "\<forall>f\<in>set_option file. newline \<notin> set f \<Longrightarrow> newline \<notin> set (location level file line)"
  by (auto simp: location_def newline_def is_digit_def dest!: show_int_chars split: option.splits)

subsection \<open>The assembled line, unknown levels, runs of calls\<close>

lemma stream_str_assembly:
  "stream_str lg level message file line clk =
     format_timestamp clk @ '' ['' @ level_to_string lg level @ ''] '' @ message @
     location level file line"
  by (simp add: stream_str_def)

lemma level_unknown:
  assumes "constructed lg" "level \<notin> {DEBUG, INFO, WARN, ERROR}"
  shows "level_to_string lg level = ''UNKNOWN''" "level_to_color lg level = reset_code"
  using assms by (simp_all add: level_to_string_constructed level_to_color_constructed reset_code_def)

lemma logger_log_calls: "logger (log_calls cs s) = logger s"
proof (induction cs arbitrary: s)
  case Nil
  show ?case by simp
next
  case (Cons c cs)
  obtain lv msg fl ln clk where c: "c = (lv, msg, fl, ln, clk)"
    by (cases c) auto
  show ?case by (simp add: c Cons.IH logger_log)
qed

lemma logger_set_log_level:
  "logger (set_log_level level s) = (logger s)\<lparr> log_level := level \<rparr>"
  by (simp add: set_log_level_def)

lemma log_twice:
  assumes "log_level (logger s) \<le> level"
  shows "output_of s (log level message file line clk s) \<noteq> []"
    and "output_of s (log level message file line clk (log level message file line clk s)) =
         output_of s (log level message file line clk s) @
         output_of s (log level message file line clk s)"
proof -
  let ?str = "stream_str (logger s) level message file line clk"
  show "output_of s (log level message file line clk s) \<noteq> []"
    using assms by (cases "WARN \<le> level") (simp_all add: log_to_cerr log_to_cout output_of_cerr output_of_cout)
  show "output_of s (log level message file line clk (log level message file line clk s)) =
         output_of s (log level message file line clk s) @
         output_of s (log level message file line clk s)"
  proof (cases "WARN \<le> level")
    case True
    let ?w = "level_to_color (logger s) level @ ?str @ reset_code @ [newline]"
    have 1: "log level message file line clk s = s\<lparr> cerr := cerr s @ ?w \<rparr>"
      using assms True by (rule log_to_cerr)
    have "log level message file line clk (s\<lparr> cerr := cerr s @ ?w \<rparr>) =
          s\<lparr> cerr := cerr s @ (?w @ ?w) \<rparr>"
      using assms True by (simp add: log_to_cerr)
    then show ?thesis unfolding 1 by (simp only: output_of_cerr)
  next
    case False
    then have lt: "level < WARN" by simp
    let ?w = "?str @ [newline]"
    have 1: "log level message file line clk s = s\<lparr> cout := cout s @ ?w \<rparr>"
      using assms lt by (rule log_to_cout)
    have "log level message file line clk (s\<lparr> cout := cout s @ ?w \<rparr>) =
          s\<lparr> cout := cout s @ (?w @ ?w) \<rparr>"
      using assms lt by (simp add: log_to_cout)
    then show ?thesis unfolding 1 by (simp only: output_of_cout)
  qed
qed

subsection \<open>When the output of a call is one line\<close>

lemma one_line_snoc_iff: "one_line (body @ [newline]) \<longleftrightarrow> newline \<notin> set body"
  by (simp add: one_line_def)

lemma stream_str_newline_iff:
  assumes "constructed lg"
  shows "newline \<in> set (stream_str lg level message file line clk) \<longleftrightarrow>
         newline \<in> set message \<or> newline \<in> set (location level file line)"
  using format_timestamp_plain(1) [of clk] level_to_string_plain(1) [OF assms, of level]
  by (simp add: stream_str_def newline_def)

lemma log_one_line_iff:
  assumes emit: "log_level (logger s) \<le> level" and con: "constructed (logger s)"
  shows "one_line (output_of s (log level message file line clk s)) \<longleftrightarrow>
         newline \<notin> set message \<and> newline \<notin> set (location level file line)"
proof (cases "WARN \<le> level")
  case True
  let ?str = "stream_str (logger s) level message file line clk"
  have "output_of s (log level message file line clk s) =
        (level_to_color (logger s) level @ ?str @ reset_code) @ [newline]"
    by (simp add: log_to_cerr [OF emit True] output_of_cerr)
  moreover have "newline \<in> set (level_to_color (logger s) level @ ?str @ reset_code) \<longleftrightarrow>
        newline \<in> set ?str"
    using level_to_color_escape(1) [OF con, of level]
    by (simp add: reset_code_def newline_def ESC_def)
  ultimately show ?thesis
    by (simp only: one_line_snoc_iff stream_str_newline_iff [OF con]) blast
next
  case False
  then have lt: "level < WARN" by simp
  let ?str = "stream_str (logger s) level message file line clk"
  have "output_of s (log level message file line clk s) = ?str @ [newline]"
    by (simp add: log_to_cout [OF emit lt] output_of_cout)
  then show ?thesis
    by (simp only: one_line_snoc_iff stream_str_newline_iff [OF con]) blast
qed

section \<open>The claims\<close>

subsection \<open>C1: filtering by the threshold, and the one line of an emitted call\<close>

text \<open>
  Claim C1, as amended. For every level \<open>L\<close> and current threshold \<open>T\<close>: if \<open>L < T\<close>,
  \<^verbatim>\<open>log(L, msg)\<close> returns the process unchanged, so nothing is written to either stream.
  If \<open>L \<ge> T\<close>, the call writes once, to one stream: the formatted timestamp, the level
  name in brackets and the message text verbatim (followed by the location suffix, and
  wrapped in the colour codes on the error stream), then one newline. That output is
  exactly one newline-terminated line if and only if neither the message nor the location
  suffix holds a newline character; the suffix holds none when the file name holds none.
\<close>

theorem log_filter_one_line:
  "(level < log_level (logger s) \<longrightarrow>
      log level message file line clk s = s \<and>
      output_of s (log level message file line clk s) = []) \<and>
   (log_level (logger s) \<le> level \<and> level < WARN \<longrightarrow>
      log level message file line clk s =
        s\<lparr> cout := cout s @
             (format_timestamp clk @ '' ['' @ level_to_string (logger s) level @ ''] '' @
              message @ location level file line) @ [newline] \<rparr>) \<and>
   (log_level (logger s) \<le> level \<and> WARN \<le> level \<longrightarrow>
      log level message file line clk s =
        s\<lparr> cerr := cerr s @ level_to_color (logger s) level @
             (format_timestamp clk @ '' ['' @ level_to_string (logger s) level @ ''] '' @
              message @ location level file line) @ reset_code @ [newline] \<rparr>) \<and>
   (log_level (logger s) \<le> level \<and> constructed (logger s) \<longrightarrow>
      (one_line (output_of s (log level message file line clk s)) \<longleftrightarrow>
       newline \<notin> set message \<and> newline \<notin> set (location level file line))) \<and>
   ((\<forall>f\<in>set_option file. newline \<notin> set f) \<longrightarrow>
      newline \<notin> set (location level file line))"
proof (intro conjI impI; (elim conjE)?)
  assume "level < log_level (logger s)"
  then show "log level message file line clk s = s" by (rule log_suppressed)
  then show "output_of s (log level message file line clk s) = []" by (simp add: output_of_same)
next
  assume "log_level (logger s) \<le> level" "level < WARN"
  then show "log level message file line clk s =
        s\<lparr> cout := cout s @
             (format_timestamp clk @ '' ['' @ level_to_string (logger s) level @ ''] '' @
              message @ location level file line) @ [newline] \<rparr>"
    by (simp add: log_to_cout stream_str_def)
next
  assume "log_level (logger s) \<le> level" "WARN \<le> level"
  then show "log level message file line clk s =
        s\<lparr> cerr := cerr s @ level_to_color (logger s) level @
             (format_timestamp clk @ '' ['' @ level_to_string (logger s) level @ ''] '' @
              message @ location level file line) @ reset_code @ [newline] \<rparr>"
    by (simp add: log_to_cerr stream_str_def)
next
  assume "log_level (logger s) \<le> level" "constructed (logger s)"
  then show "one_line (output_of s (log level message file line clk s)) \<longleftrightarrow>
       newline \<notin> set message \<and> newline \<notin> set (location level file line)"
    by (rule log_one_line_iff)
next
  assume "\<forall>f\<in>set_option file. newline \<notin> set f"
  then show "newline \<notin> set (location level file line)" by (rule location_plain)
qed

theorem log_filter_one_line_witness:
  "log DEBUG ''x'' None 0 clock_2023 startup = startup \<and>
   cout (log INFO ''y'' None 0 clock_2023 startup) = ''2023-11-14 22:13:20.123 [INFO] y'' @ [newline] \<and>
   cerr (log INFO ''y'' None 0 clock_2023 startup) = [] \<and>
   cerr (log ERROR ''w'' None 0 clock_2023 startup) =
     ESC # ''[31m2023-11-14 22:13:20.123 [ERROR] w'' @ ESC # ''[0m'' @ [newline] \<and>
   one_line (output_of startup (log INFO ''y'' None 0 clock_2023 startup))"
proof -
  have below: "DEBUG < log_level (logger startup)"
    and reached: "log_level (logger startup) \<le> INFO" "log_level (logger startup) \<le> ERROR"
    and route: "INFO < WARN" "WARN \<le> ERROR"
    and side: "constructed (logger startup)" "newline \<notin> set ''y''"
      "\<forall>f\<in>set_option (None :: string option). newline \<notin> set f"
    by (simp_all add: startup_def Logger_ctor_def LogLevel_defs constructed_def newline_def)
  have name: "level_to_string (logger startup) INFO = ''INFO''"
      "level_to_string (logger startup) ERROR = ''ERROR''"
      "level_to_color (logger startup) ERROR = ESC # ''[31m''"
    by (simp_all add: startup_def Logger_ctor_def LogLevel_defs level_to_string_def level_to_color_def)
  from log_filter_one_line [of DEBUG startup "''x''" None 0 clock_2023] below
  have 1: "log DEBUG ''x'' None 0 clock_2023 startup = startup" by blast
  from log_filter_one_line [of INFO startup "''y''" None 0 clock_2023] reached route side
  have 2: "log INFO ''y'' None 0 clock_2023 startup =
      startup\<lparr> cout := cout startup @ (format_timestamp clock_2023 @ '' ['' @
        level_to_string (logger startup) INFO @ ''] '' @ ''y'' @ location INFO None 0) @ [newline] \<rparr>"
    and 3: "one_line (output_of startup (log INFO ''y'' None 0 clock_2023 startup))"
    by blast+
  from log_filter_one_line [of ERROR startup "''w''" None 0 clock_2023] reached route
  have 4: "log ERROR ''w'' None 0 clock_2023 startup =
      startup\<lparr> cerr := cerr startup @ level_to_color (logger startup) ERROR @
        (format_timestamp clock_2023 @ '' ['' @
        level_to_string (logger startup) ERROR @ ''] '' @ ''w'' @ location ERROR None 0) @
        reset_code @ [newline] \<rparr>"
    by blast
  have 5: "cout startup = []" "cerr startup = []" by (simp_all add: startup_def)
  from 1 3 show ?thesis
    by (simp add: 2 4 5 name format_timestamp_clock_2023 location_def reset_code_def)
qed

text \<open>
  Claim C1 as stated fails for a message that holds a newline: at startup the call
  \<^verbatim>\<open>log(LogLevel::INFO, "a\nb")\<close> reaches the threshold and writes the message
  verbatim, so the standard stream receives two newline-terminated lines, neither of which
  holds the whole message.
\<close>

theorem log_message_newline_two_lines:
  "log_level (logger startup) \<le> INFO \<and>
   cout (log INFO [CHR ''a'', newline, CHR ''b''] None 0 clock_2023 startup) =
     ''2023-11-14 22:13:20.123 [INFO] a'' @ [newline] @ ''b'' @ [newline] \<and>
   cerr (log INFO [CHR ''a'', newline, CHR ''b''] None 0 clock_2023 startup) = [] \<and>
   \<not> one_line (output_of startup
                 (log INFO [CHR ''a'', newline, CHR ''b''] None 0 clock_2023 startup))"
proof -
  let ?msg = "[CHR ''a'', newline, CHR ''b'']"
  have emit: "log_level (logger startup) \<le> INFO" and lt: "INFO < WARN"
    and empty: "cout startup = []" "cerr startup = []"
    by (simp_all add: startup_def Logger_ctor_def LogLevel_defs)
  have str: "stream_str (logger startup) INFO ?msg None 0 clock_2023 =
      ''2023-11-14 22:13:20.123 [INFO] a'' @ [newline] @ ''b''"
    by (simp add: stream_str_def level_to_string_def location_def startup_def Logger_ctor_def
        LogLevel_defs format_timestamp_clock_2023)
  have eq: "log INFO ?msg None 0 clock_2023 startup =
      startup\<lparr> cout := cout startup @
        (''2023-11-14 22:13:20.123 [INFO] a'' @ [newline] @ ''b'') @ [newline] \<rparr>"
    using log_to_cout [OF emit lt, of ?msg None 0 clock_2023] by (simp only: str)
  have 1: "cout (log INFO ?msg None 0 clock_2023 startup) =
     ''2023-11-14 22:13:20.123 [INFO] a'' @ [newline] @ ''b'' @ [newline]"
    and 2: "cerr (log INFO ?msg None 0 clock_2023 startup) = []"
    unfolding eq by (simp_all add: empty)
  have 3: "\<not> one_line (output_of startup (log INFO ?msg None 0 clock_2023 startup))"
    unfolding eq output_of_cout one_line_snoc_iff by simp
  from emit 1 2 3 show ?thesis by blast
qed

subsection \<open>C2: routing and colour\<close>



subsection \<open>C3: the location suffix\<close>

text \<open>
  Claim C3. For every emitted call \<^verbatim>\<open>log(level, message, file, line)\<close>: the suffix
  \<^verbatim>\<open> [at <file>:<line>]\<close> is appended after the message if and only if the level is
  \<^verbatim>\<open>WARN\<close> or higher, a file was supplied and the line is strictly positive. With
  \<^verbatim>\<open>WARN\<close> or higher and a missing file or a line that is not positive, and with any
  level below \<^verbatim>\<open>WARN\<close> whatever file and line are, the message is the last part of
  the line.
\<close>

theorem location_suffix_iff:
  "log_level (logger s) \<le> level \<Longrightarrow>
   (location level file line \<noteq> [] \<longleftrightarrow> WARN \<le> level \<and> file \<noteq> None \<and> 0 < line) \<and>
   (WARN \<le> level \<and> 0 < line \<longrightarrow>
      log level message (Some f) line clk s =
        s\<lparr> cerr := cerr s @ level_to_color (logger s) level @
             (format_timestamp clk @ '' ['' @ level_to_string (logger s) level @ ''] '' @ message @
              '' [at '' @ f @ '':'' @ show_int line @ '']'') @ reset_code @ [newline] \<rparr>) \<and>
   (WARN \<le> level \<and> (file = None \<or> line \<le> 0) \<longrightarrow>
      log level message file line clk s =
        s\<lparr> cerr := cerr s @ level_to_color (logger s) level @
             (format_timestamp clk @ '' ['' @ level_to_string (logger s) level @ ''] '' @ message) @
             reset_code @ [newline] \<rparr>) \<and>
   (level < WARN \<longrightarrow>
      log level message file line clk s =
        s\<lparr> cout := cout s @
             (format_timestamp clk @ '' ['' @ level_to_string (logger s) level @ ''] '' @ message) @
             [newline] \<rparr>)"
proof (intro conjI impI; (elim conjE)?)
  assume emit: "log_level (logger s) \<le> level"
  show "location level file line \<noteq> [] \<longleftrightarrow> WARN \<le> level \<and> file \<noteq> None \<and> 0 < line"
    by (rule location_nonempty_iff)
  {
    assume "WARN \<le> level" "0 < line"
    then show "log level message (Some f) line clk s =
        s\<lparr> cerr := cerr s @ level_to_color (logger s) level @
             (format_timestamp clk @ '' ['' @ level_to_string (logger s) level @ ''] '' @ message @
              '' [at '' @ f @ '':'' @ show_int line @ '']'') @ reset_code @ [newline] \<rparr>"
      using emit by (simp add: log_to_cerr stream_str_def location_Some)
  }
  {
    assume "WARN \<le> level" "file = None \<or> line \<le> 0"
    then show "log level message file line clk s =
        s\<lparr> cerr := cerr s @ level_to_color (logger s) level @
             (format_timestamp clk @ '' ['' @ level_to_string (logger s) level @ ''] '' @ message) @
             reset_code @ [newline] \<rparr>"
      using emit by (simp add: log_to_cerr stream_str_def location_absent)
  }
  {
    assume "level < WARN"
    then show "log level message file line clk s =
        s\<lparr> cout := cout s @
             (format_timestamp clk @ '' ['' @ level_to_string (logger s) level @ ''] '' @ message) @
             [newline] \<rparr>"
      using emit by (simp add: log_to_cout stream_str_def location_below_WARN)
  }
qed

theorem location_suffix_iff_witness:
  "cerr (log WARN ''m'' (Some ''f.ext'') 42 clock_2023 startup) =
     ESC # ''[33m2023-11-14 22:13:20.123 [WARN] m [at f.ext:42]'' @ ESC # ''[0m'' @ [newline] \<and>
   cerr (log ERROR ''m'' (Some ''f.ext'') 0 clock_2023 startup) =
     ESC # ''[31m2023-11-14 22:13:20.123 [ERROR] m'' @ ESC # ''[0m'' @ [newline] \<and>
   cerr (log ERROR ''m'' None 42 clock_2023 startup) =
     ESC # ''[31m2023-11-14 22:13:20.123 [ERROR] m'' @ ESC # ''[0m'' @ [newline] \<and>
   cout (log INFO ''m'' (Some ''f.ext'') 42 clock_2023 startup) =
     ''2023-11-14 22:13:20.123 [INFO] m'' @ [newline]"
proof -
  have pre: "log_level (logger startup) \<le> WARN" "log_level (logger startup) \<le> ERROR"
      "log_level (logger startup) \<le> INFO" "WARN \<le> WARN" "WARN \<le> ERROR" "INFO < WARN"
      "(0::int) < 42" "Some ''f.ext'' = None \<or> (0::int) \<le> 0"
      "(None :: string option) = None \<or> (42::int) \<le> 0"
    by (simp_all add: startup_def Logger_ctor_def LogLevel_defs)
  have vals: "level_to_color (logger startup) WARN = ESC # ''[33m''"
      "level_to_color (logger startup) ERROR = ESC # ''[31m''"
      "level_to_string (logger startup) WARN = ''WARN''"
      "level_to_string (logger startup) ERROR = ''ERROR''"
      "level_to_string (logger startup) INFO = ''INFO''"
      "cout startup = []" "cerr startup = []" "show_int 42 = ''42''"
    by (simp_all add: startup_def Logger_ctor_def LogLevel_defs level_to_color_def
        level_to_string_def show_int_def digit_char_def)
  from location_suffix_iff [OF pre(1), of "Some ''f.ext''" 42 "''m''" "''f.ext''" clock_2023] pre
  have 1: "log WARN ''m'' (Some ''f.ext'') 42 clock_2023 startup =
        startup\<lparr> cerr := cerr startup @ level_to_color (logger startup) WARN @
             (format_timestamp clock_2023 @ '' ['' @ level_to_string (logger startup) WARN @ ''] '' @ ''m'' @
              '' [at '' @ ''f.ext'' @ '':'' @ show_int 42 @ '']'') @ reset_code @ [newline] \<rparr>"
    by blast
  from location_suffix_iff [OF pre(2), of "Some ''f.ext''" 0 "''m''" "''f.ext''" clock_2023] pre
  have 2: "log ERROR ''m'' (Some ''f.ext'') 0 clock_2023 startup =
        startup\<lparr> cerr := cerr startup @ level_to_color (logger startup) ERROR @
             (format_timestamp clock_2023 @ '' ['' @ level_to_string (logger startup) ERROR @ ''] '' @ ''m'') @
             reset_code @ [newline] \<rparr>"
    by blast
  from location_suffix_iff [OF pre(2), of None 42 "''m''" "''f.ext''" clock_2023] pre
  have 3: "log ERROR ''m'' None 42 clock_2023 startup =
        startup\<lparr> cerr := cerr startup @ level_to_color (logger startup) ERROR @
             (format_timestamp clock_2023 @ '' ['' @ level_to_string (logger startup) ERROR @ ''] '' @ ''m'') @
             reset_code @ [newline] \<rparr>"
    by blast
  from location_suffix_iff [OF pre(3), of "Some ''f.ext''" 42 "''m''" "''f.ext''" clock_2023] pre
  have 4: "log INFO ''m'' (Some ''f.ext'') 42 clock_2023 startup =
        startup\<lparr> cout := cout startup @
             (format_timestamp clock_2023 @ '' ['' @ level_to_string (logger startup) INFO @ ''] '' @ ''m'') @
             [newline] \<rparr>"
    by blast
  show ?thesis
    by (simp add: 1 2 3 4 vals format_timestamp_clock_2023 reset_code_def)
qed

subsection \<open>C4: the assembly order and the timestamp\<close>

text \<open>
  Claim C4. Every emitted line is \<^verbatim>\<open><timestamp> [<LEVEL>] <message>\<close>, optionally followed
  by \<^verbatim>\<open> [at <file>:<line>]\<close>, and the timestamp is the wall clock at the call in local
  time as \<^verbatim>\<open>YYYY-MM-DD HH:MM:SS.mmm\<close> with exactly three zero-padded digits of
  milliseconds. The order of assembly holds always (lemma \<open>stream_str_assembly\<close>), and so
  does the format for a clock at or after the epoch (lemma \<open>format_timestamp_digits\<close>).
  The theorem evaluates the code at a clock reading of 5 milliseconds before the epoch:
  line 48 takes the remainder of a negative count, which C++ gives the sign of the
  dividend, and line 67 pads the text \<^verbatim>\<open>-5\<close> to width 3, so the line that is written
  starts with \<^verbatim>\<open>1970-01-01 00:00:00.0-5\<close>, which is not of the format that the claim and
  the comment of line 65 give.
\<close>

theorem timestamp_before_epoch:
  "format_timestamp
     \<lparr> system_clock_now = - 5000000,
       localtime_r = fixed_localtime
         \<lparr> tm_sec = 0, tm_min = 0, tm_hour = 0, tm_mday = 1, tm_mon = 0, tm_year = 70 \<rparr> \<rparr> =
     ''1970-01-01 00:00:00.0-5'' \<and>
   \<not> timestamp_format (format_timestamp
     \<lparr> system_clock_now = - 5000000,
       localtime_r = fixed_localtime
         \<lparr> tm_sec = 0, tm_min = 0, tm_hour = 0, tm_mday = 1, tm_mon = 0, tm_year = 70 \<rparr> \<rparr>) \<and>
   cout (log INFO ''y'' None 0
     \<lparr> system_clock_now = - 5000000,
       localtime_r = fixed_localtime
         \<lparr> tm_sec = 0, tm_min = 0, tm_hour = 0, tm_mday = 1, tm_mon = 0, tm_year = 70 \<rparr> \<rparr>
     startup) = ''1970-01-01 00:00:00.0-5 [INFO] y'' @ [newline]"
proof -
  have ts: "format_timestamp
     \<lparr> system_clock_now = - 5000000,
       localtime_r = fixed_localtime
         \<lparr> tm_sec = 0, tm_min = 0, tm_hour = 0, tm_mday = 1, tm_mon = 0, tm_year = 70 \<rparr> \<rparr> =
     ''1970-01-01 00:00:00.0-5''"
    by (simp add: eval_defs)
  have bad: "\<not> timestamp_format ''1970-01-01 00:00:00.0-5''"
    by (simp add: timestamp_format_def is_digit_def)
  have out: "cout (log INFO ''y'' None 0 clk startup) =
      format_timestamp clk @ '' [INFO] y'' @ [newline]" for clk
    by (simp add: log_def Let_def stream_str_def level_to_string_def location_def startup_def
        Logger_ctor_def LogLevel_defs)
  show ?thesis unfolding out ts using bad by simp
qed

subsection \<open>C5: levels outside the enumeration\<close>

text \<open>
  Claim C5, as amended. For every level outside \<open>{DEBUG, INFO, WARN, ERROR}\<close>, a call
  that passes the filter renders the label as \<^verbatim>\<open>[UNKNOWN]\<close>; the colour looked up for the
  level is the default (reset) code; the level is above \<^verbatim>\<open>ERROR\<close> or below \<^verbatim>\<open>DEBUG\<close>;
  above \<^verbatim>\<open>ERROR\<close> the line goes to the error stream with the reset code in the place of
  a level-specific colour; below \<^verbatim>\<open>DEBUG\<close> it goes to the standard stream with no colour
  code at all. The model has no failing outcome: \<^verbatim>\<open>log\<close> returns a process state for
  every input.
\<close>

theorem unknown_level_fallback:
  "level \<notin> {DEBUG, INFO, WARN, ERROR} \<Longrightarrow> constructed (logger s) \<Longrightarrow>
   log_level (logger s) \<le> level \<Longrightarrow>
   level_to_string (logger s) level = ''UNKNOWN'' \<and>
   level_to_color (logger s) level = reset_code \<and>
   (ERROR < level \<or> level < DEBUG) \<and>
   (ERROR < level \<longrightarrow>
      log level message file line clk s =
        s\<lparr> cerr := cerr s @ reset_code @
             (format_timestamp clk @ '' [UNKNOWN] '' @ message @ location level file line) @
             reset_code @ [newline] \<rparr>) \<and>
   (level < DEBUG \<longrightarrow>
      log level message file line clk s =
        s\<lparr> cout := cout s @ (format_timestamp clk @ '' [UNKNOWN] '' @ message) @ [newline] \<rparr>)"
proof (intro conjI impI)
  assume unk: "level \<notin> {DEBUG, INFO, WARN, ERROR}" and con: "constructed (logger s)"
    and emit: "log_level (logger s) \<le> level"
  show name: "level_to_string (logger s) level = ''UNKNOWN''"
    and colour: "level_to_color (logger s) level = reset_code"
    using con unk by (rule level_unknown)+
  show "ERROR < level \<or> level < DEBUG"
    using unk by (auto simp: LogLevel_defs)
  {
    assume "ERROR < level"
    then have "WARN \<le> level" by (simp add: LogLevel_defs)
    from log_to_cerr [OF emit this]
    show "log level message file line clk s =
        s\<lparr> cerr := cerr s @ reset_code @
             (format_timestamp clk @ '' [UNKNOWN] '' @ message @ location level file line) @
             reset_code @ [newline] \<rparr>"
      by (simp add: stream_str_def name colour)
  }
  {
    assume "level < DEBUG"
    then have lt: "level < WARN" by (simp add: LogLevel_defs)
    from log_to_cout [OF emit lt]
    show "log level message file line clk s =
        s\<lparr> cout := cout s @ (format_timestamp clk @ '' [UNKNOWN] '' @ message) @ [newline] \<rparr>"
      by (simp add: stream_str_def name location_below_WARN [OF lt])
  }
qed

theorem unknown_level_fallback_witness:
  "cerr (log 7 ''m'' None 0 clock_2023 startup) =
     ESC # ''[0m2023-11-14 22:13:20.123 [UNKNOWN] m'' @ ESC # ''[0m'' @ [newline] \<and>
   cout (log (- 1) ''m'' None 0 clock_2023 (set_log_level (- 1) startup)) =
     ''2023-11-14 22:13:20.123 [UNKNOWN] m'' @ [newline]"
proof -
  let ?s = "set_log_level (- 1) startup"
  have pre: "(7::int) \<notin> {DEBUG, INFO, WARN, ERROR}" "constructed (logger startup)"
      "log_level (logger startup) \<le> 7" "ERROR < 7"
      "(- 1::int) \<notin> {DEBUG, INFO, WARN, ERROR}" "constructed (logger ?s)"
      "log_level (logger ?s) \<le> - 1" "- 1 < DEBUG"
    by (simp_all add: startup_def Logger_ctor_def LogLevel_defs constructed_def set_log_level_def)
  from unknown_level_fallback [OF pre(1-3), of "''m''" None 0 clock_2023] pre(4)
  have 1: "log 7 ''m'' None 0 clock_2023 startup =
        startup\<lparr> cerr := cerr startup @ reset_code @
             (format_timestamp clock_2023 @ '' [UNKNOWN] '' @ ''m'' @ location 7 None 0) @
             reset_code @ [newline] \<rparr>"
    by blast
  from unknown_level_fallback [OF pre(5-7), of "''m''" None 0 clock_2023] pre(8)
  have 2: "log (- 1) ''m'' None 0 clock_2023 ?s =
        ?s\<lparr> cout := cout ?s @ (format_timestamp clock_2023 @ '' [UNKNOWN] '' @ ''m'') @ [newline] \<rparr>"
    by blast
  have 3: "cerr startup = []" "cout ?s = []"
    by (simp_all add: startup_def set_log_level_def)
  show ?thesis
    by (simp add: 1 2 3 format_timestamp_clock_2023 location_def reset_code_def)
qed

text \<open>
  Claim C5 as stated fails for a level below \<^verbatim>\<open>DEBUG\<close>: with the threshold set to
  \<open>- 1\<close>, a call at level \<open>- 1\<close> passes the filter, is labelled \<^verbatim>\<open>[UNKNOWN]\<close>, and is
  written to the standard stream with no colour code; the error stream receives nothing.
\<close>

theorem unknown_level_below_WARN_uncoloured:
  "- 1 \<notin> {DEBUG, INFO, WARN, ERROR} \<and>
   log_level (logger (set_log_level (- 1) startup)) \<le> - 1 \<and>
   cout (log (- 1) ''m'' None 0 clock_2023 (set_log_level (- 1) startup)) =
     ''2023-11-14 22:13:20.123 [UNKNOWN] m'' @ [newline] \<and>
   cerr (log (- 1) ''m'' None 0 clock_2023 (set_log_level (- 1) startup)) = [] \<and>
   ESC \<notin> set (output_of (set_log_level (- 1) startup)
                 (log (- 1) ''m'' None 0 clock_2023 (set_log_level (- 1) startup)))"
proof -
  let ?s = "set_log_level (- 1) startup"
  have lv: "log_level (logger ?s) = - 1" "cout ?s = []" "cerr ?s = []"
      "level_strings (logger ?s) (- 1) = None"
    by (simp_all add: set_log_level_def startup_def Logger_ctor_def LogLevel_defs)
  have eq: "log (- 1) ''m'' None 0 clock_2023 ?s =
      ?s\<lparr> cout := cout ?s @ ''2023-11-14 22:13:20.123 [UNKNOWN] m'' @ [newline] \<rparr>"
    by (simp add: log_def Let_def lv stream_str_def level_to_string_def location_def
        format_timestamp_clock_2023 LogLevel_defs)
  have "ESC \<notin> set (output_of ?s (log (- 1) ''m'' None 0 clock_2023 ?s))"
    unfolding eq output_of_cout by (simp add: ESC_def newline_def)
  then show ?thesis
    by (simp add: eq lv LogLevel_defs)
qed

subsection \<open>C6: the scenario at the default threshold\<close>

text \<open>
  Claim C6. At startup the threshold is \<^verbatim>\<open>INFO\<close>. As long as the logger is the one the
  constructor built (no call to \<^verbatim>\<open>set_log_level\<close>), whatever has been written before:
  \<^verbatim>\<open>LOG_DEBUG("x")\<close> changes nothing; \<^verbatim>\<open>LOG_INFO("y")\<close> appends to the standard stream
  a line that ends in \<^verbatim>\<open>[INFO] y\<close>; \<^verbatim>\<open>LOG_WARN("z")\<close> appends to the error stream the
  yellow code, the line with \<^verbatim>\<open>[WARN] z\<close> and the location of the call, and the reset
  code; \<^verbatim>\<open>LOG_ERROR("w")\<close> does the same with the red code and \<^verbatim>\<open>[ERROR] w\<close>. The line
  number of a call site, \<^verbatim>\<open>__LINE__\<close>, is positive.
\<close>

theorem default_threshold_scenario:
  "log_level (logger startup) = INFO \<and> logger startup = Logger_ctor \<and>
   LOG_DEBUG ''x'' clk \<lparr> logger = Logger_ctor, cout = out, cerr = err \<rparr> =
     \<lparr> logger = Logger_ctor, cout = out, cerr = err \<rparr> \<and>
   LOG_INFO ''y'' clk \<lparr> logger = Logger_ctor, cout = out, cerr = err \<rparr> =
     \<lparr> logger = Logger_ctor,
       cout = out @ format_timestamp clk @ '' [INFO] y'' @ [newline], cerr = err \<rparr> \<and>
   (0 < LINE \<longrightarrow>
      LOG_WARN ''z'' FILE LINE clk \<lparr> logger = Logger_ctor, cout = out, cerr = err \<rparr> =
        \<lparr> logger = Logger_ctor, cout = out,
          cerr = err @ ESC # ''[33m'' @ format_timestamp clk @ '' [WARN] z'' @
                 '' [at '' @ FILE @ '':'' @ show_int LINE @ '']'' @ ESC # ''[0m'' @ [newline] \<rparr>) \<and>
   (0 < LINE \<longrightarrow>
      LOG_ERROR ''w'' FILE LINE clk \<lparr> logger = Logger_ctor, cout = out, cerr = err \<rparr> =
        \<lparr> logger = Logger_ctor, cout = out,
          cerr = err @ ESC # ''[31m'' @ format_timestamp clk @ '' [ERROR] w'' @
                 '' [at '' @ FILE @ '':'' @ show_int LINE @ '']'' @ ESC # ''[0m'' @ [newline] \<rparr>)"
  by (simp add: startup_def LOG_DEBUG_def LOG_INFO_def LOG_WARN_def LOG_ERROR_def log_def Let_def
      stream_str_def level_to_string_def level_to_color_def location_def Logger_ctor_def
      LogLevel_defs)

theorem default_threshold_scenario_witness:
  "LOG_DEBUG ''x'' clock_2023 startup = startup \<and>
   cout (LOG_INFO ''y'' clock_2023 startup) = ''2023-11-14 22:13:20.123 [INFO] y'' @ [newline] \<and>
   cerr (LOG_WARN ''z'' ''main.cpp'' 174 clock_2023 startup) =
     ESC # ''[33m2023-11-14 22:13:20.123 [WARN] z [at main.cpp:174]'' @ ESC # ''[0m'' @ [newline] \<and>
   cerr (LOG_ERROR ''w'' ''main.cpp'' 177 clock_2023 startup) =
     ESC # ''[31m2023-11-14 22:13:20.123 [ERROR] w [at main.cpp:177]'' @ ESC # ''[0m'' @ [newline]"
proof -
  have pos: "(0::int) < 174" "(0::int) < 177" by simp_all
  have num: "show_int 174 = ''174''" "show_int 177 = ''177''"
    by (simp_all add: show_int_def digit_char_def)
  note w = default_threshold_scenario [of clock_2023 "[]" "[]" 174 "''main.cpp''"]
  note e = default_threshold_scenario [of clock_2023 "[]" "[]" 177 "''main.cpp''"]
  from w have 1: "LOG_DEBUG ''x'' clock_2023 startup = startup"
    and 2: "LOG_INFO ''y'' clock_2023 startup =
       \<lparr> logger = Logger_ctor,
         cout = [] @ format_timestamp clock_2023 @ '' [INFO] y'' @ [newline], cerr = [] \<rparr>"
    unfolding startup_def by blast+
  from w pos(1) have 3: "LOG_WARN ''z'' ''main.cpp'' 174 clock_2023 startup =
        \<lparr> logger = Logger_ctor, cout = [],
          cerr = [] @ ESC # ''[33m'' @ format_timestamp clock_2023 @ '' [WARN] z'' @
                 '' [at '' @ ''main.cpp'' @ '':'' @ show_int 174 @ '']'' @ ESC # ''[0m'' @ [newline] \<rparr>"
    unfolding startup_def by blast
  from e pos(2) have 4: "LOG_ERROR ''w'' ''main.cpp'' 177 clock_2023 startup =
        \<lparr> logger = Logger_ctor, cout = [],
          cerr = [] @ ESC # ''[31m'' @ format_timestamp clock_2023 @ '' [ERROR] w'' @
                 '' [at '' @ ''main.cpp'' @ '':'' @ show_int 177 @ '']'' @ ESC # ''[0m'' @ [newline] \<rparr>"
    unfolding startup_def by blast
  show ?thesis by (simp add: 1 2 3 4 num format_timestamp_clock_2023)
qed

subsection \<open>C7: the threshold ERROR\<close>

text \<open>
  Claim C7. After \<^verbatim>\<open>set_log_level(LogLevel::ERROR)\<close>, and after any run of calls to
  \<^verbatim>\<open>log\<close> that follows it, the threshold is still \<^verbatim>\<open>ERROR\<close>, a \<^verbatim>\<open>LOG_WARN\<close> returns
  the process unchanged and writes nothing, and a \<^verbatim>\<open>LOG_ERROR\<close> appends its line to the
  error stream, so its output is not empty.
\<close>

theorem threshold_ERROR_silences_warn:
  "log_level (logger (log_calls cs (set_log_level ERROR s))) = ERROR \<and>
   LOG_WARN msg FILE LINE clk (log_calls cs (set_log_level ERROR s)) =
     log_calls cs (set_log_level ERROR s) \<and>
   output_of (log_calls cs (set_log_level ERROR s))
     (LOG_WARN msg FILE LINE clk (log_calls cs (set_log_level ERROR s))) = [] \<and>
   LOG_ERROR msg FILE LINE clk (log_calls cs (set_log_level ERROR s)) =
     (log_calls cs (set_log_level ERROR s))
       \<lparr> cerr := cerr (log_calls cs (set_log_level ERROR s)) @
                 level_to_color (logger s) ERROR @
                 (format_timestamp clk @ '' ['' @ level_to_string (logger s) ERROR @ ''] '' @ msg @
                  location ERROR (Some FILE) LINE) @ reset_code @ [newline] \<rparr> \<and>
   output_of (log_calls cs (set_log_level ERROR s))
     (LOG_ERROR msg FILE LINE clk (log_calls cs (set_log_level ERROR s))) \<noteq> []"
proof -
  define s' where "s' = log_calls cs (set_log_level ERROR s)"
  have lg: "logger s' = (logger s)\<lparr> log_level := ERROR \<rparr>"
    by (simp add: s'_def logger_log_calls logger_set_log_level)
  then have lv: "log_level (logger s') = ERROR" by simp
  have maps: "level_to_color (logger s') ERROR = level_to_color (logger s) ERROR"
      "level_to_string (logger s') ERROR = level_to_string (logger s) ERROR"
    by (simp_all add: lg level_to_color_def level_to_string_def)
  have w: "LOG_WARN msg FILE LINE clk s' = s'"
    unfolding LOG_WARN_def by (rule log_suppressed) (simp add: lv LogLevel_defs)
  have e: "LOG_ERROR msg FILE LINE clk s' =
      s'\<lparr> cerr := cerr s' @ level_to_color (logger s) ERROR @
                 (format_timestamp clk @ '' ['' @ level_to_string (logger s) ERROR @ ''] '' @ msg @
                  location ERROR (Some FILE) LINE) @ reset_code @ [newline] \<rparr>"
  proof -
    have "log_level (logger s') \<le> ERROR" "WARN \<le> ERROR"
      by (simp_all add: lv LogLevel_defs)
    from log_to_cerr [OF this] show ?thesis
      unfolding LOG_ERROR_def by (simp add: stream_str_def maps)
  qed
  have "output_of s' (LOG_WARN msg FILE LINE clk s') = []"
    by (simp add: w output_of_same)
  moreover have "output_of s' (LOG_ERROR msg FILE LINE clk s') \<noteq> []"
    unfolding e output_of_cerr by simp
  ultimately show ?thesis using lv w e unfolding s'_def by blast
qed

subsection \<open>C8: LOG_CRITICAL\<close>

text \<open>
  Claim C8. \<^verbatim>\<open>LOG_CRITICAL(msg)\<close> is a call to \<^verbatim>\<open>log\<close> at level \<^verbatim>\<open>ERROR\<close> with the
  file and line of the call site, whose message is \<^verbatim>\<open>msg\<close> after the marker
  \<^verbatim>\<open>ESC[1;31mCRITICAL:ESC[0m \<close>: bold (1) and red (31) for the word, then a reset. When
  the threshold lets \<^verbatim>\<open>ERROR\<close> pass, the error stream receives the red code, the
  timestamp, \<^verbatim>\<open>[ERROR]\<close>, the marker, the message, the location and the reset code; when
  the threshold is above \<^verbatim>\<open>ERROR\<close>, nothing is written.
\<close>

theorem LOG_CRITICAL_marker:
  "LOG_CRITICAL msg FILE LINE clk s =
     log ERROR (ESC # ''[1;31mCRITICAL:'' @ ESC # ''[0m '' @ msg) (Some FILE) LINE clk s \<and>
   (log_level (logger s) \<le> ERROR \<and> 0 < LINE \<and> constructed (logger s) \<longrightarrow>
      LOG_CRITICAL msg FILE LINE clk s =
        s\<lparr> cerr := cerr s @ ESC # ''[31m'' @ format_timestamp clk @ '' [ERROR] '' @
                    ESC # ''[1;31mCRITICAL:'' @ ESC # ''[0m '' @ msg @
                    '' [at '' @ FILE @ '':'' @ show_int LINE @ '']'' @ ESC # ''[0m'' @ [newline] \<rparr>) \<and>
   (ERROR < log_level (logger s) \<longrightarrow> LOG_CRITICAL msg FILE LINE clk s = s)"
proof (intro conjI impI; (elim conjE)?)
  show "LOG_CRITICAL msg FILE LINE clk s =
     log ERROR (ESC # ''[1;31mCRITICAL:'' @ ESC # ''[0m '' @ msg) (Some FILE) LINE clk s"
    by (simp add: LOG_CRITICAL_def)
  {
    assume emit: "log_level (logger s) \<le> ERROR" and pos: "0 < LINE"
      and con: "constructed (logger s)"
    have err: "WARN \<le> ERROR" by (simp add: LogLevel_defs)
    have name: "level_to_string (logger s) ERROR = ''ERROR''"
      and colour: "level_to_color (logger s) ERROR = ESC # ''[31m''"
      using con by (simp_all add: level_to_string_constructed level_to_color_constructed LogLevel_defs)
    show "LOG_CRITICAL msg FILE LINE clk s =
        s\<lparr> cerr := cerr s @ ESC # ''[31m'' @ format_timestamp clk @ '' [ERROR] '' @
                    ESC # ''[1;31mCRITICAL:'' @ ESC # ''[0m '' @ msg @
                    '' [at '' @ FILE @ '':'' @ show_int LINE @ '']'' @ ESC # ''[0m'' @ [newline] \<rparr>"
      unfolding LOG_CRITICAL_def log_to_cerr [OF emit err]
      by (simp add: stream_str_def name colour location_Some [OF err pos] reset_code_def)
  }
  {
    assume "ERROR < log_level (logger s)"
    then show "LOG_CRITICAL msg FILE LINE clk s = s"
      unfolding LOG_CRITICAL_def by (rule log_suppressed)
  }
qed

theorem LOG_CRITICAL_marker_witness:
  "cerr (LOG_CRITICAL ''System overheating!'' ''main.cpp'' 183 clock_2023 startup) =
     ESC # ''[31m2023-11-14 22:13:20.123 [ERROR] '' @ ESC # ''[1;31mCRITICAL:'' @ ESC #
     ''[0m System overheating! [at main.cpp:183]'' @ ESC # ''[0m'' @ [newline] \<and>
   LOG_CRITICAL ''System overheating!'' ''main.cpp'' 183 clock_2023
     (set_log_level 4 startup) = set_log_level 4 startup"
proof -
  have pre: "log_level (logger startup) \<le> ERROR \<and> (0::int) < 183 \<and> constructed (logger startup)"
    "ERROR < log_level (logger (set_log_level 4 startup))"
    by (simp_all add: startup_def Logger_ctor_def LogLevel_defs constructed_def set_log_level_def)
  have num: "show_int 183 = ''183''" "cerr startup = []"
    by (simp_all add: show_int_def digit_char_def startup_def)
  from LOG_CRITICAL_marker [of "''System overheating!''" "''main.cpp''" 183 clock_2023 startup] pre(1)
  have 1: "LOG_CRITICAL ''System overheating!'' ''main.cpp'' 183 clock_2023 startup =
        startup\<lparr> cerr := cerr startup @ ESC # ''[31m'' @ format_timestamp clock_2023 @ '' [ERROR] '' @
                    ESC # ''[1;31mCRITICAL:'' @ ESC # ''[0m '' @ ''System overheating!'' @
                    '' [at '' @ ''main.cpp'' @ '':'' @ show_int 183 @ '']'' @ ESC # ''[0m'' @ [newline] \<rparr>"
    by blast
  from LOG_CRITICAL_marker [of "''System overheating!''" "''main.cpp''" 183 clock_2023
      "set_log_level 4 startup"] pre(2)
  have 2: "LOG_CRITICAL ''System overheating!'' ''main.cpp'' 183 clock_2023
     (set_log_level 4 startup) = set_log_level 4 startup"
    by blast
  from 2 show ?thesis by (simp add: 1 num format_timestamp_clock_2023)
qed

subsection \<open>C9: LOG_IF\<close>

text \<open>
  Claim C9. \<^verbatim>\<open>LOG_IF(condition, level, msg)\<close> is the call \<^verbatim>\<open>log(level, msg)\<close> if the
  condition is true, and does nothing and writes nothing if it is false. Nothing else
  gates it: with a true condition and a level that reaches the threshold, the call writes,
  and the same call made twice, even with the same clock reading, writes its line twice.
\<close>

theorem LOG_IF_only_condition:
  "(condition \<longrightarrow> LOG_IF condition level msg clk s = log level msg None 0 clk s) \<and>
   (\<not> condition \<longrightarrow>
      LOG_IF condition level msg clk s = s \<and>
      output_of s (LOG_IF condition level msg clk s) = []) \<and>
   (condition \<and> log_level (logger s) \<le> level \<longrightarrow>
      output_of s (LOG_IF condition level msg clk s) \<noteq> [] \<and>
      output_of s (LOG_IF condition level msg clk (LOG_IF condition level msg clk s)) =
        output_of s (LOG_IF condition level msg clk s) @
        output_of s (LOG_IF condition level msg clk s))"
  using log_twice [of s level msg None 0 clk]
  by (simp add: LOG_IF_def output_of_same)

theorem LOG_IF_only_condition_witness:
  "output_of startup (LOG_IF (3 > (2::int)) ERROR ''Exceeded'' clock_2023 startup) =
     ESC # ''[31m2023-11-14 22:13:20.123 [ERROR] Exceeded'' @ ESC # ''[0m'' @ [newline] \<and>
   output_of startup (LOG_IF (3 > (2::int)) ERROR ''Exceeded'' clock_2023
                       (LOG_IF (3 > (2::int)) ERROR ''Exceeded'' clock_2023 startup)) =
     ESC # ''[31m2023-11-14 22:13:20.123 [ERROR] Exceeded'' @ ESC # ''[0m'' @ [newline] @
     ESC # ''[31m2023-11-14 22:13:20.123 [ERROR] Exceeded'' @ ESC # ''[0m'' @ [newline] \<and>
   LOG_IF (1 > (2::int)) ERROR ''Exceeded'' clock_2023 startup = startup"
proof -
  have t: "(3::int) > 2" and f: "\<not> (1::int) > 2"
    and emit: "log_level (logger startup) \<le> ERROR"
    by (simp_all add: startup_def Logger_ctor_def LogLevel_defs)
  have direct: "output_of startup (log ERROR ''Exceeded'' None 0 clock_2023 startup) =
     ESC # ''[31m2023-11-14 22:13:20.123 [ERROR] Exceeded'' @ ESC # ''[0m'' @ [newline]"
    by (simp add: log_def Let_def stream_str_def level_to_string_def level_to_color_def
        location_def startup_def Logger_ctor_def LogLevel_defs output_of_def appended_def
        format_timestamp_clock_2023)
  note a = LOG_IF_only_condition [of "3 > (2::int)" ERROR "''Exceeded''" clock_2023 startup]
  note b = LOG_IF_only_condition [of "1 > (2::int)" ERROR "''Exceeded''" clock_2023 startup]
  from a t have 1: "LOG_IF (3 > (2::int)) ERROR ''Exceeded'' clock_2023 startup =
      log ERROR ''Exceeded'' None 0 clock_2023 startup" by blast
  from a t emit have 2:
    "output_of startup (LOG_IF (3 > (2::int)) ERROR ''Exceeded'' clock_2023
                       (LOG_IF (3 > (2::int)) ERROR ''Exceeded'' clock_2023 startup)) =
        output_of startup (LOG_IF (3 > (2::int)) ERROR ''Exceeded'' clock_2023 startup) @
        output_of startup (LOG_IF (3 > (2::int)) ERROR ''Exceeded'' clock_2023 startup)"
    by blast
  from b f have 3: "LOG_IF (1 > (2::int)) ERROR ''Exceeded'' clock_2023 startup = startup"
    by blast
  have 4: "output_of startup (LOG_IF (3 > (2::int)) ERROR ''Exceeded'' clock_2023 startup) =
     ESC # ''[31m2023-11-14 22:13:20.123 [ERROR] Exceeded'' @ ESC # ''[0m'' @ [newline]"
    unfolding 1 by (rule direct)
  show ?thesis unfolding 2 4 using 3 by simp
qed

subsection \<open>C10: what log leaves alone, and set_log_level\<close>

text \<open>
  Claim C10. A call to \<^verbatim>\<open>log\<close>, suppressed or emitted, leaves the threshold and the two
  maps as they were; so does every run of calls and every macro. \<^verbatim>\<open>set_log_level\<close>
  sets the threshold and changes nothing else, neither the maps nor the streams. Setting
  the same level twice gives the same process state as setting it once, so every later
  call to \<^verbatim>\<open>log\<close> behaves the same after \<^verbatim>\<open>set_log_level(WARN)\<close> twice as after once.
\<close>

theorem log_frame_set_level_idempotent:
  "log_level (logger (log level message file line clk s)) = log_level (logger s) \<and>
   level_strings (logger (log level message file line clk s)) = level_strings (logger s) \<and>
   colors (logger (log level message file line clk s)) = colors (logger s) \<and>
   logger (log_calls cs s) = logger s \<and>
   logger (LOG_INFO msg clk s) = logger s \<and>
   logger (LOG_DEBUG msg clk s) = logger s \<and>
   logger (LOG_WARN msg FILE LINE clk s) = logger s \<and>
   logger (LOG_ERROR msg FILE LINE clk s) = logger s \<and>
   logger (LOG_CUSTOM level msg clk s) = logger s \<and>
   logger (LOG_CRITICAL msg FILE LINE clk s) = logger s \<and>
   logger (LOG_IF condition level msg clk s) = logger s \<and>
   log_level (logger (set_log_level new_level s)) = new_level \<and>
   level_strings (logger (set_log_level new_level s)) = level_strings (logger s) \<and>
   colors (logger (set_log_level new_level s)) = colors (logger s) \<and>
   cout (set_log_level new_level s) = cout s \<and>
   cerr (set_log_level new_level s) = cerr s \<and>
   set_log_level new_level (set_log_level new_level s) = set_log_level new_level s \<and>
   log level message file line clk (set_log_level WARN (set_log_level WARN s)) =
     log level message file line clk (set_log_level WARN s)"
proof -
  have idem: "set_log_level l (set_log_level l s) = set_log_level l s" for l
    by (simp add: set_log_level_def)
  show ?thesis
    by (simp add: logger_log logger_log_calls LOG_INFO_def LOG_DEBUG_def LOG_WARN_def
        LOG_ERROR_def LOG_CUSTOM_def LOG_CRITICAL_def LOG_IF_def idem)
      (simp add: set_log_level_def)
qed

end
